theory Spec2Isabelle
  imports Complex_Main
begin

section \<open>The drawing board of Drawvy: canvas, history and stroke replication\<close>

text \<open>
  This theory embeds \<^verbatim>\<open>src/components/Board/index.js\<close>. The component keeps its
  state in React refs (\<^verbatim>\<open>drawHistory\<close>, \<^verbatim>\<open>historyPointer\<close>, \<^verbatim>\<open>shouldDraw\<close>,
  \<^verbatim>\<open>lastPos\<close>), draws on one canvas element and talks to its peers over a socket.
  Every handler and effect of the component is a function from the board state to the
  board state; a handler that can let an exception escape returns an \<open>outcome\<close>.

  JavaScript numbers are modelled by \<open>real\<close> (coordinates, widths, the device pixel
  ratio) and by \<open>int\<close> (the history pointer, which the code can drive to \<open>-1\<close>):
  arithmetic is exact, rounding of IEEE doubles is not part of the model.
\<close>

subsection \<open>The 2D rendering surface\<close>

type_synonym point = "real \<times> real"

datatype segment = LineTo point | BezierCurveTo point point point

text \<open>A subpath is its first point and the segments added to it since.\<close>

type_synonym subpath = "point \<times> segment list"

datatype line_cap = ButtCap | RoundCap | SquareCap

datatype line_join = MiterJoin | RoundJoin | BevelJoin

text \<open>
  The drawing state of the context that a stroke reads. The component only ever calls
  \<^verbatim>\<open>scale\<close> on the transform, so the transform is the pair of scale factors.
\<close>

record drawstate =
  strokeStyle :: string
  lineWidth :: real
  lineCap :: line_cap
  lineJoin :: line_join
  scaleBy :: "real \<times> real"

text \<open>
  The pixel content of a surface is kept as the history of what was painted on it:
  nothing (\<open>Blank\<close>, transparent black), a stroke of a path with the drawing state of
  that moment painted over earlier content, or an image written over earlier content.
  Two equal terms are equal pixel buffers; the rasterisation itself is not modelled.
\<close>

datatype raster =
    Blank
  | Stroke raster "subpath list" drawstate
  | PutImage raster imagedata
and imagedata =
    ImageData (imgWidth: nat) (imgHeight: nat) (imgData: raster)

record canvas2d =
  width :: nat
  height :: nat
  pixels :: raster
  dstate :: drawstate
  path :: "subpath list"

definition defaultState :: drawstate where
  "defaultState =
     \<lparr>strokeStyle = ''#000000'', lineWidth = 1, lineCap = ButtCap,
      lineJoin = MiterJoin, scaleBy = (1, 1)\<rparr>"

text \<open>
  Assigning \<^verbatim>\<open>canvas.width\<close> or \<^verbatim>\<open>canvas.height\<close> (to any value, the old one
  included) sets the bitmap dimensions: the bitmap is cleared and the context goes back
  to its default state with an empty path.
\<close>

definition set_width :: "nat \<Rightarrow> canvas2d \<Rightarrow> canvas2d" where
  "set_width w c =
     \<lparr>width = w, height = height c, pixels = Blank, dstate = defaultState, path = []\<rparr>"

definition set_height :: "nat \<Rightarrow> canvas2d \<Rightarrow> canvas2d" where
  "set_height h c =
     \<lparr>width = width c, height = h, pixels = Blank, dstate = defaultState, path = []\<rparr>"

definition scale :: "real \<Rightarrow> real \<Rightarrow> canvas2d \<Rightarrow> canvas2d" where
  "scale sx sy c =
     c\<lparr>dstate := (dstate c)\<lparr>scaleBy := (fst (scaleBy (dstate c)) * sx,
                                          snd (scaleBy (dstate c)) * sy)\<rparr>\<rparr>"

definition beginPath :: "canvas2d \<Rightarrow> canvas2d" where
  "beginPath c = c\<lparr>path := []\<rparr>"

definition moveTo :: "point \<Rightarrow> canvas2d \<Rightarrow> canvas2d" where
  "moveTo p c = c\<lparr>path := path c @ [(p, [])]\<rparr>"

text \<open>Adds a segment to the last subpath of a path that has one.\<close>

definition extendLast :: "segment \<Rightarrow> subpath list \<Rightarrow> subpath list" where
  "extendLast g ps = butlast ps @ [(fst (last ps), snd (last ps) @ [g])]"

text \<open>
  \<^verbatim>\<open>lineTo\<close> on a path without subpaths only starts one at the point;
  \<^verbatim>\<open>bezierCurveTo\<close> on such a path first starts one at the first control point.
\<close>

definition lineTo :: "point \<Rightarrow> canvas2d \<Rightarrow> canvas2d" where
  "lineTo p c =
     (if path c = [] then c\<lparr>path := [(p, [])]\<rparr>
      else c\<lparr>path := extendLast (LineTo p) (path c)\<rparr>)"

definition bezierCurveTo :: "point \<Rightarrow> point \<Rightarrow> point \<Rightarrow> canvas2d \<Rightarrow> canvas2d" where
  "bezierCurveTo cp1 cp2 p c =
     c\<lparr>path := extendLast (BezierCurveTo cp1 cp2 p)
                  (if path c = [] then [(cp1, [])] else path c)\<rparr>"

definition stroke :: "canvas2d \<Rightarrow> canvas2d" where
  "stroke c = c\<lparr>pixels := Stroke (pixels c) (path c) (dstate c)\<rparr>"

datatype js_error = TypeError | IndexSizeError

text \<open>
  \<^verbatim>\<open>getImageData(0, 0, canvas.width, canvas.height)\<close>: the whole bitmap. A zero
  width or height raises \<^verbatim>\<open>IndexSizeError\<close>, which is \<open>None\<close> here.
\<close>

definition getImageData :: "canvas2d \<Rightarrow> imagedata option" where
  "getImageData c =
     (if width c = 0 \<or> height c = 0 then None
      else Some (ImageData (width c) (height c) (pixels c)))"

definition putImageData :: "imagedata \<Rightarrow> canvas2d \<Rightarrow> canvas2d" where
  "putImageData img c = c\<lparr>pixels := PutImage (pixels c) img\<rparr>"

text \<open>
  \<^verbatim>\<open>toDataURL('image/png')\<close> encodes the whole bitmap; the encoding is kept abstract
  as the image it encodes.
\<close>

definition toDataURL :: "canvas2d \<Rightarrow> imagedata" where
  "toDataURL c = ImageData (width c) (height c) (pixels c)"

subsection \<open>The state of the component\<close>

text \<open>
  Modelled from the spec: the constants \<^verbatim>\<open>MENU_ITEMS.DOWNLOAD\<close>, \<^verbatim>\<open>MENU_ITEMS.UNDO\<close>
  and \<^verbatim>\<open>MENU_ITEMS.REDO\<close> are imported from \<^verbatim>\<open>@/constants\<close>, a file that is not among
  the sources. The spec names the three one-shot commands of the action dispatcher,
  Download, Undo and Redo; \<^verbatim>\<open>actionMenuItem\<close> is one of them or \<^verbatim>\<open>null\<close> (\<open>None\<close>).
\<close>

datatype action = Download | Undo | Redo

text \<open>The two stroke messages the component emits and receives.\<close>

datatype message = BeginPath point | DrawLine point

text \<open>
  The payload of a \<^verbatim>\<open>changeConfig\<close> message. The size is the number the field
  converts to when it is assigned to \<^verbatim>\<open>lineWidth\<close>; \<open>None\<close> stands for what is no
  finite number there: \<^verbatim>\<open>NaN\<close>, as a missing field gives, or an infinity.
\<close>

record config =
  color :: string
  penSize :: "real option"

text \<open>
  What the browser tells the component when it asks: \<^verbatim>\<open>window.devicePixelRatio\<close> and
  the rectangle of \<^verbatim>\<open>canvas.getBoundingClientRect()\<close>. The canvas is styled to fill
  its parent, so the rectangle does not depend on the bitmap dimensions. \<open>parsesColor\<close>
  is the browser's parser of CSS colours, which decides what the \<^verbatim>\<open>strokeStyle\<close>
  setter accepts.
\<close>

record env =
  devicePixelRatio :: real
  rectWidth :: real
  rectHeight :: real
  parsesColor :: "string \<Rightarrow> bool"

text \<open>
  A mouse event carries its own position; a touch event carries the list of touches, of
  which the handlers read the first. \<^verbatim>\<open>touchstart\<close> and \<^verbatim>\<open>touchmove\<close> always carry
  at least one touch, so the first touch is a field of its own.
\<close>

datatype pointer_event = MouseEvent point | TouchEvent point "point list"

text \<open>\<^verbatim>\<open>const pos = e.touches ? e.touches[0] : e\<close>, read at \<^verbatim>\<open>clientX\<close>, \<^verbatim>\<open>clientY\<close>.\<close>

fun eventPos :: "pointer_event \<Rightarrow> point" where
  "eventPos (MouseEvent p) = p"
| "eventPos (TouchEvent t ts) = t"

text \<open>
  \<open>canvasMounted\<close> says that \<^verbatim>\<open>canvasRef.current\<close> is not null; \<open>canvas\<close> is the
  element it then points to. \<open>emitted\<close> is the log of \<^verbatim>\<open>socket.emit\<close> calls and
  \<open>downloads\<close> the log of images handed to the download anchor.
\<close>

record board =
  canvasMounted :: bool
  canvas :: canvas2d
  drawHistory :: "imagedata list"
  historyPointer :: int
  shouldDraw :: bool
  lastPos :: point
  isDrawing :: bool
  actionMenuItem :: "action option"
  emitted :: "message list"
  downloads :: "imagedata list"

text \<open>
  A handler either returns, or lets an exception escape; the refs keep what was written
  to them before the exception.
\<close>

datatype outcome = Done board | Threw js_error board

text \<open>The refs as the component creates them, on a canvas element of the default size.\<close>

definition freshBoard :: board where
  "freshBoard =
     \<lparr>canvasMounted = True,
      canvas = \<lparr>width = 300, height = 150, pixels = Blank, dstate = defaultState, path = []\<rparr>,
      drawHistory = [], historyPointer = 0, shouldDraw = False, lastPos = (0, 0),
      isDrawing = False, actionMenuItem = None, emitted = [], downloads = []\<rparr>"

subsection \<open>Stroke renderer\<close>

definition drawSmoothLine :: "real \<Rightarrow> real \<Rightarrow> real \<Rightarrow> real \<Rightarrow> canvas2d \<Rightarrow> canvas2d" where
  "drawSmoothLine x1 y1 x2 y2 context =
     (let c1 = moveTo (x1, y1) (beginPath context);
          cp1x = x1 + (x2 - x1) * 0.3;
          cp1y = y1 + (y2 - y1) * 0.3;
          cp2x = x1 + (x2 - x1) * 0.7;
          cp2y = y1 + (y2 - y1) * 0.7
      in stroke (bezierCurveTo (cp1x, cp1y) (cp2x, cp2y) (x2, y2) c1))"

subsection \<open>Surface controller\<close>

text \<open>
  \<^verbatim>\<open>window.devicePixelRatio || 1\<close>: a ratio of zero is falsy. The products assigned
  to \<^verbatim>\<open>canvas.width\<close> and \<^verbatim>\<open>canvas.height\<close> are truncated to whole pixels.
\<close>

definition pixelRatio :: "env \<Rightarrow> real" where
  "pixelRatio e = (if devicePixelRatio e = 0 then 1 else devicePixelRatio e)"

definition setupHighResCanvas :: "env \<Rightarrow> canvas2d \<Rightarrow> canvas2d" where
  "setupHighResCanvas e cv =
     (let dpr = pixelRatio e;
          c1 = set_width (nat \<lfloor>rectWidth e * dpr\<rfloor>) cv;
          c2 = set_height (nat \<lfloor>rectHeight e * dpr\<rfloor>) c1;
          c3 = scale dpr dpr c2
      in c3\<lparr>dstate := (dstate c3)\<lparr>lineCap := RoundCap, lineJoin := RoundJoin\<rparr>\<rparr>)"

text \<open>\<^verbatim>\<open>drawHistory.current[i]\<close>: \<^verbatim>\<open>undefined\<close> (\<open>None\<close>) outside the array.\<close>

definition nth_js :: "'a list \<Rightarrow> int \<Rightarrow> 'a option" where
  "nth_js xs i = (if 0 \<le> i \<and> i < int (length xs) then Some (xs ! nat i) else None)"

text \<open>
  The branches of the action effect, run on the board after the canvas set-up.
  \<^verbatim>\<open>putImageData(undefined, 0, 0)\<close> raises \<^verbatim>\<open>TypeError\<close>, after the pointer was
  written and before the command is cleared.
\<close>

definition actionBranch :: "board \<Rightarrow> outcome" where
  "actionBranch s =
     (case actionMenuItem s of
        Some Download \<Rightarrow>
          Done (s\<lparr>downloads := downloads s @ [toDataURL (canvas s)],
                  actionMenuItem := None\<rparr>)
      | Some a \<Rightarrow>
          (let newPointer =
                 (if a = Undo then max 0 (historyPointer s - 1)
                  else min (int (length (drawHistory s)) - 1) (historyPointer s + 1));
               s1 = s\<lparr>historyPointer := newPointer\<rparr>
           in case nth_js (drawHistory s1) newPointer of
                None \<Rightarrow> Threw TypeError s1
              | Some imageData \<Rightarrow>
                  Done (s1\<lparr>canvas := putImageData imageData (canvas s1),
                           actionMenuItem := None\<rparr>))
      | None \<Rightarrow> Done (s\<lparr>actionMenuItem := None\<rparr>))"

text \<open>
  The effect that React runs when \<^verbatim>\<open>actionMenuItem\<close> has changed; the board holds
  the new value.
\<close>

definition actionEffect :: "env \<Rightarrow> board \<Rightarrow> outcome" where
  "actionEffect e s =
     (if \<not> canvasMounted s then Done s
      else actionBranch (s\<lparr>canvas := setupHighResCanvas e (canvas s)\<rparr>))"

text \<open>
  A sequence of changes of \<^verbatim>\<open>actionMenuItem\<close>, each with the environment of its
  moment. A click on Undo is the change to \<open>Some Undo\<close> followed by the change back to
  \<open>None\<close> that the effect itself dispatches. An exception ends the run.
\<close>

fun runActions :: "(env \<times> action option) list \<Rightarrow> board \<Rightarrow> outcome" where
  "runActions [] s = Done s"
| "runActions ((e, a) # rest) s =
     (case actionEffect e (s\<lparr>actionMenuItem := a\<rparr>) of
        Done s' \<Rightarrow> runActions rest s'
      | Threw err s' \<Rightarrow> Threw err s')"

text \<open>
  The two attribute setters that \<^verbatim>\<open>changeConfig\<close> assigns to. Assigning a string that
  does not parse as a colour leaves \<^verbatim>\<open>strokeStyle\<close> as it was; a string that parses
  is stored, and stands here for the colour it parses to. Assigning a width that is zero,
  negative or no finite number leaves \<^verbatim>\<open>lineWidth\<close> as it was.
\<close>

definition set_strokeStyle :: "env \<Rightarrow> string \<Rightarrow> canvas2d \<Rightarrow> canvas2d" where
  "set_strokeStyle e col c =
     (if parsesColor e col then c\<lparr>dstate := (dstate c)\<lparr>strokeStyle := col\<rparr>\<rparr> else c)"

definition set_lineWidth :: "real option \<Rightarrow> canvas2d \<Rightarrow> canvas2d" where
  "set_lineWidth sz c =
     (case sz of
        None \<Rightarrow> c
      | Some w \<Rightarrow> if 0 < w then c\<lparr>dstate := (dstate c)\<lparr>lineWidth := w\<rparr>\<rparr> else c)"

text \<open>The style effect and the handler of \<^verbatim>\<open>changeConfig\<close> messages.\<close>

definition changeConfig :: "env \<Rightarrow> string \<Rightarrow> real option \<Rightarrow> canvas2d \<Rightarrow> canvas2d" where
  "changeConfig e col sz context =
     (let c1 = set_strokeStyle e col context;
          c2 = set_lineWidth sz c1
      in c2\<lparr>dstate := (dstate c2)\<lparr>lineCap := RoundCap, lineJoin := RoundJoin\<rparr>\<rparr>)"

definition styleEffect :: "env \<Rightarrow> string \<Rightarrow> real option \<Rightarrow> board \<Rightarrow> board" where
  "styleEffect e col sz s =
     (if \<not> canvasMounted s then s
      else s\<lparr>canvas := changeConfig e col sz (canvas s)\<rparr>)"

definition handleChangeConfig :: "env \<Rightarrow> config \<Rightarrow> board \<Rightarrow> board" where
  "handleChangeConfig e cfg s =
     s\<lparr>canvas := changeConfig e (color cfg) (penSize cfg) (canvas s)\<rparr>"

definition resizeCanvas :: "env \<Rightarrow> board \<Rightarrow> board" where
  "resizeCanvas e s =
     (let dpr = pixelRatio e;
          c1 = set_width (nat \<lfloor>rectWidth e * dpr\<rfloor>) (canvas s);
          c2 = set_height (nat \<lfloor>rectHeight e * dpr\<rfloor>) c1;
          c3 = scale dpr dpr c2
      in s\<lparr>canvas := c3\<lparr>dstate := (dstate c3)\<lparr>lineCap := RoundCap,
                                                  lineJoin := RoundJoin\<rparr>\<rparr>\<rparr>)"

subsection \<open>Input capture and history\<close>

definition handleDrawStart :: "pointer_event \<Rightarrow> board \<Rightarrow> board" where
  "handleDrawStart ev s =
     (let pos = eventPos ev
      in s\<lparr>shouldDraw := True, lastPos := pos, isDrawing := True,
           canvas := moveTo pos (beginPath (canvas s)),
           emitted := emitted s @ [BeginPath pos]\<rparr>)"

definition handleDrawMove :: "pointer_event \<Rightarrow> board \<Rightarrow> board" where
  "handleDrawMove ev s =
     (if \<not> shouldDraw s then s
      else
        (let pos = eventPos ev
         in s\<lparr>canvas := drawSmoothLine (fst (lastPos s)) (snd (lastPos s))
                           (fst pos) (snd pos) (canvas s),
              lastPos := pos,
              emitted := emitted s @ [DrawLine pos]\<rparr>))"

definition handleDrawEnd :: "board \<Rightarrow> outcome" where
  "handleDrawEnd s =
     (if \<not> shouldDraw s then Done s
      else
        (let s1 = s\<lparr>shouldDraw := False, isDrawing := False\<rparr>
         in case getImageData (canvas s1) of
              None \<Rightarrow> Threw IndexSizeError s1
            | Some imageData \<Rightarrow>
                (let s2 = s1\<lparr>drawHistory := drawHistory s1 @ [imageData]\<rparr>
                 in Done (s2\<lparr>historyPointer := int (length (drawHistory s2)) - 1\<rparr>))))"

subsection \<open>Sync channel, receiving side\<close>

definition onBeginPath :: "point \<Rightarrow> board \<Rightarrow> board" where
  "onBeginPath p s = s\<lparr>canvas := moveTo p (beginPath (canvas s))\<rparr>"

definition onDrawLine :: "point \<Rightarrow> board \<Rightarrow> board" where
  "onDrawLine p s = s\<lparr>canvas := stroke (lineTo p (canvas s))\<rparr>"

text \<open>The two \<^verbatim>\<open>socket.on\<close> registrations, as one dispatch on the message received.\<close>

fun receive :: "message \<Rightarrow> board \<Rightarrow> board" where
  "receive (BeginPath p) s = onBeginPath p s"
| "receive (DrawLine p) s = onDrawLine p s"

subsection \<open>Events and runs\<close>

text \<open>
  Everything that can reach the mounted component: a change of \<^verbatim>\<open>actionMenuItem\<close>, a
  change of the local colour or size, a window resize, the pointer events
  (\<^verbatim>\<open>mousedown\<close>/\<^verbatim>\<open>touchstart\<close>, \<^verbatim>\<open>mousemove\<close>/\<^verbatim>\<open>touchmove\<close>,
  \<^verbatim>\<open>mouseup\<close>/\<^verbatim>\<open>mouseout\<close>/\<^verbatim>\<open>touchend\<close>) and the three kinds of socket message.
  The event loop runs one handler to completion before the next.
\<close>

datatype event =
    ActionChanged "action option"
  | StyleChanged string "real option"
  | WindowResize
  | PointerDown pointer_event
  | PointerMoved pointer_event
  | PointerUp
  | Received message
  | ReceivedConfig config

fun dispatchEvent :: "env \<Rightarrow> event \<Rightarrow> board \<Rightarrow> outcome" where
  "dispatchEvent e (ActionChanged a) s = actionEffect e (s\<lparr>actionMenuItem := a\<rparr>)"
| "dispatchEvent e (StyleChanged col sz) s = Done (styleEffect e col sz s)"
| "dispatchEvent e WindowResize s = Done (resizeCanvas e s)"
| "dispatchEvent e (PointerDown ev) s = Done (handleDrawStart ev s)"
| "dispatchEvent e (PointerMoved ev) s = Done (handleDrawMove ev s)"
| "dispatchEvent e PointerUp s = handleDrawEnd s"
| "dispatchEvent e (Received m) s = Done (receive m s)"
| "dispatchEvent e (ReceivedConfig cfg) s = Done (handleChangeConfig e cfg s)"

text \<open>
  The events that React handles by running an effect of the component. The others are
  handled by listeners that the layout effect registered on the canvas, the window and
  the socket.
\<close>

fun isEffect :: "event \<Rightarrow> bool" where
  "isEffect (ActionChanged a) = True"
| "isEffect (StyleChanged col sz) = True"
| "isEffect other = False"

text \<open>
  A run of events. An exception that escapes a listener is reported by the browser and
  nothing more: the refs keep what the listener wrote and the component handles the
  events that follow. An exception that escapes an effect makes React unmount the
  component, whose listeners are removed: the run ends there.
\<close>

fun run :: "(env \<times> event) list \<Rightarrow> board \<Rightarrow> outcome" where
  "run [] s = Done s"
| "run ((e, ev) # rest) s =
     (case dispatchEvent e ev s of
        Done s' \<Rightarrow> run rest s'
      | Threw err s' \<Rightarrow> if isEffect ev then Threw err s' else run rest s')"

subsection \<open>Observations\<close>

text \<open>The board an outcome leaves behind, whether the handler returned or threw.\<close>

fun boardOf :: "outcome \<Rightarrow> board" where
  "boardOf (Done s) = s"
| "boardOf (Threw err s) = s"

text \<open>
  Mounting the component: React runs the layout effect, which sizes the canvas, then the
  action effect on the command the store starts with (none), then the style effect with
  the colour and size of the active tool.
\<close>

definition mountBoard :: "env \<Rightarrow> string \<Rightarrow> real option \<Rightarrow> board" where
  "mountBoard e col sz =
     styleEffect e col sz (boardOf (actionEffect e (resizeCanvas e freshBoard)))"

text \<open>The events that only draw: pointer events and stroke messages.\<close>

fun isStrokeEvent :: "event \<Rightarrow> bool" where
  "isStrokeEvent (PointerDown ev) = True"
| "isStrokeEvent (PointerMoved ev) = True"
| "isStrokeEvent PointerUp = True"
| "isStrokeEvent (Received m) = True"
| "isStrokeEvent other = False"

text \<open>The colour and width of the stroke that was painted last, if a stroke was.\<close>

fun paintedWith :: "raster \<Rightarrow> (string \<times> real) option" where
  "paintedWith (Stroke below p d) = Some (strokeStyle d, lineWidth d)"
| "paintedWith other = None"

text \<open>The pointer indexes a snapshot.\<close>

definition historyOk :: "board \<Rightarrow> bool" where
  "historyOk s = (0 \<le> historyPointer s \<and> historyPointer s < int (length (drawHistory s)))"

text \<open>
  What holds of the history in every state the component reaches: with an empty
  history the pointer is \<open>0\<close> or \<open>-1\<close>, otherwise it indexes a snapshot.
\<close>

definition historyInv :: "board \<Rightarrow> bool" where
  "historyInv s =
     (canvasMounted s \<and>
      (if drawHistory s = [] then historyPointer s = 0 \<or> historyPointer s = - 1
       else historyOk s))"

subsection \<open>Sample states\<close>

text \<open>The colours written with six hexadecimal digits, which every browser parses.\<close>

definition hexColor :: "string \<Rightarrow> bool" where
  "hexColor c =
     (case c of
        [] \<Rightarrow> False
      | h # ds \<Rightarrow> h = CHR ''#'' \<and> length ds = 6
                 \<and> list_all (\<lambda>d. d \<in> set ''0123456789abcdefABCDEF'') ds)"

definition sampleEnv :: env where
  "sampleEnv =
     \<lparr>devicePixelRatio = 2, rectWidth = 800, rectHeight = 600, parsesColor = hexColor\<rparr>"

definition sampleStroke :: raster where
  "sampleStroke = Stroke Blank [((5, 5), [LineTo (15, 5)])] defaultState"

text \<open>A board on which two strokes were finished: two snapshots, the pointer on the last.\<close>

definition sampleBoard :: board where
  "sampleBoard =
     freshBoard\<lparr>drawHistory := [ImageData 300 150 Blank, ImageData 300 150 sampleStroke],
                historyPointer := 1\<rparr>"

text \<open>
  A board on which two strokes were drawn and finished: the surface shows both, the
  first snapshot shows the first and the second snapshot shows both.
\<close>

definition secondStroke :: raster where
  "secondStroke = Stroke sampleStroke [((0, 0), [LineTo (9, 9)])] defaultState"

definition strokedBoard :: board where
  "strokedBoard =
     freshBoard\<lparr>canvas := (canvas freshBoard)\<lparr>pixels := secondStroke\<rparr>,
                drawHistory := [ImageData 300 150 sampleStroke, ImageData 300 150 secondStroke],
                historyPointer := 1\<rparr>"

text \<open>A board in the middle of a gesture that started at \<open>(0, 0)\<close>.\<close>

definition drawingBoard :: board where
  "drawingBoard = handleDrawStart (MouseEvent (0, 0)) freshBoard"

section \<open>Properties\<close>

subsection \<open>The canvas after a set-up\<close>

lemma setup_canvas:
  "setupHighResCanvas e cv =
     \<lparr>width = nat \<lfloor>rectWidth e * pixelRatio e\<rfloor>,
      height = nat \<lfloor>rectHeight e * pixelRatio e\<rfloor>,
      pixels = Blank,
      dstate = \<lparr>strokeStyle = ''#000000'', lineWidth = 1, lineCap = RoundCap,
                lineJoin = RoundJoin, scaleBy = (pixelRatio e, pixelRatio e)\<rparr>,
      path = []\<rparr>"
  by (simp add: setupHighResCanvas_def set_width_def set_height_def scale_def
      defaultState_def Let_def)

lemma resize_canvas: "resizeCanvas e s = s\<lparr>canvas := setupHighResCanvas e (canvas s)\<rparr>"
  by (simp add: resizeCanvas_def setupHighResCanvas_def Let_def)

subsection \<open>One run of the action effect\<close>

lemma null_step:
  assumes "canvasMounted s"
  shows "actionEffect e (s\<lparr>actionMenuItem := None\<rparr>) =
           Done (s\<lparr>canvas := setupHighResCanvas e (canvas s), actionMenuItem := None\<rparr>)"
  using assms by (simp add: actionEffect_def actionBranch_def)

lemma download_step:
  assumes "canvasMounted s"
  shows "actionEffect e (s\<lparr>actionMenuItem := Some Download\<rparr>) =
           Done (s\<lparr>canvas := setupHighResCanvas e (canvas s),
                   downloads := downloads s @ [toDataURL (setupHighResCanvas e (canvas s))],
                   actionMenuItem := None\<rparr>)"
  using assms by (simp add: actionEffect_def actionBranch_def)

lemma undo_step:
  assumes "canvasMounted s" and "historyOk s"
  shows "actionEffect e (s\<lparr>actionMenuItem := Some Undo\<rparr>) =
           Done (s\<lparr>canvas := putImageData (drawHistory s ! nat (max 0 (historyPointer s - 1)))
                                 (setupHighResCanvas e (canvas s)),
                   historyPointer := max 0 (historyPointer s - 1),
                   actionMenuItem := None\<rparr>)"
  using assms
  by (auto simp: actionEffect_def actionBranch_def nth_js_def Let_def historyOk_def)

lemma redo_step:
  assumes "canvasMounted s" and "historyOk s"
  shows "actionEffect e (s\<lparr>actionMenuItem := Some Redo\<rparr>) =
           Done (s\<lparr>canvas := putImageData
                      (drawHistory s !
                         nat (min (int (length (drawHistory s)) - 1) (historyPointer s + 1)))
                      (setupHighResCanvas e (canvas s)),
                   historyPointer :=
                     min (int (length (drawHistory s)) - 1) (historyPointer s + 1),
                   actionMenuItem := None\<rparr>)"
  using assms
  by (auto simp: actionEffect_def actionBranch_def nth_js_def Let_def historyOk_def)

text \<open>
  On an empty history the pointer is written and the effect then throws: Undo leaves
  \<open>0\<close>, Redo leaves \<open>min (-1) (p + 1)\<close>.
\<close>

lemma undo_redo_empty:
  assumes "canvasMounted s" and "drawHistory s = []"
  shows "actionEffect e (s\<lparr>actionMenuItem := Some Undo\<rparr>) =
           Threw TypeError (s\<lparr>canvas := setupHighResCanvas e (canvas s),
                               actionMenuItem := Some Undo,
                               historyPointer := max 0 (historyPointer s - 1)\<rparr>)"
    and "actionEffect e (s\<lparr>actionMenuItem := Some Redo\<rparr>) =
           Threw TypeError (s\<lparr>canvas := setupHighResCanvas e (canvas s),
                               actionMenuItem := Some Redo,
                               historyPointer := min (- 1) (historyPointer s + 1)\<rparr>)"
  using assms by (simp_all add: actionEffect_def actionBranch_def nth_js_def Let_def)

lemma action_step_keeps:
  assumes "canvasMounted s" and "historyOk s"
  shows "\<exists>s'. actionEffect e (s\<lparr>actionMenuItem := a\<rparr>) = Done s' \<and> canvasMounted s'
           \<and> historyOk s' \<and> drawHistory s' = drawHistory s"
proof (cases a)
  case None
  with assms show ?thesis by (auto simp: null_step historyOk_def)
next
  case (Some c)
  show ?thesis
  proof (cases c)
    case Download
    with Some assms show ?thesis by (auto simp: download_step historyOk_def)
  next
    case Undo
    with Some assms show ?thesis by (auto simp: undo_step historyOk_def)
  next
    case Redo
    with Some assms show ?thesis by (auto simp: redo_step historyOk_def)
  qed
qed

lemma runActions_keeps:
  assumes "canvasMounted s" and "historyOk s"
  shows "\<exists>s'. runActions ops s = Done s' \<and> canvasMounted s' \<and> historyOk s'
           \<and> drawHistory s' = drawHistory s"
  using assms
proof (induction ops arbitrary: s)
  case Nil
  then show ?case by simp
next
  case (Cons op ops)
  obtain e a where op: "op = (e, a)" by (cases op)
  from action_step_keeps [OF Cons.prems, of e a]
  obtain s1 where s1: "actionEffect e (s\<lparr>actionMenuItem := a\<rparr>) = Done s1"
    "canvasMounted s1" "historyOk s1" "drawHistory s1 = drawHistory s" by blast
  from Cons.IH [OF s1(2) s1(3)]
  obtain s2 where "runActions ops s1 = Done s2" "canvasMounted s2" "historyOk s2"
    "drawHistory s2 = drawHistory s1" by blast
  with s1 op show ?case by simp
qed

text \<open>
  One run of the effect for Undo or Redo, on a mounted board whose pointer \<open>p\<close>
  indexes a snapshot: the run returns with the pointer at \<open>max 0 (p - 1)\<close> or at
  \<open>min (N - 1) (p + 1)\<close>, which indexes a snapshot, and with that snapshot written
  onto the blank canvas; from \<open>p = 0\<close> Undo leaves the pointer at \<open>0\<close>, from
  \<open>p = N - 1\<close> Redo leaves it at \<open>N - 1\<close>. This is the board at the return of
  that one run.
\<close>

lemma undo_redo_effect_run:
  assumes "canvasMounted s"
    and "drawHistory s \<noteq> []"
    and "0 \<le> historyPointer s"
    and "historyPointer s < int (length (drawHistory s))"
  shows "(\<exists>s'. actionEffect e (s\<lparr>actionMenuItem := Some Undo\<rparr>) = Done s'
            \<and> historyPointer s' = max 0 (historyPointer s - 1)
            \<and> drawHistory s' = drawHistory s
            \<and> nth_js (drawHistory s) (historyPointer s')
                = Some (drawHistory s ! nat (historyPointer s'))
            \<and> pixels (canvas s') = PutImage Blank (drawHistory s ! nat (historyPointer s')))
       \<and> (\<exists>s'. actionEffect e (s\<lparr>actionMenuItem := Some Redo\<rparr>) = Done s'
            \<and> historyPointer s' = min (int (length (drawHistory s)) - 1) (historyPointer s + 1)
            \<and> drawHistory s' = drawHistory s
            \<and> nth_js (drawHistory s) (historyPointer s')
                = Some (drawHistory s ! nat (historyPointer s'))
            \<and> pixels (canvas s') = PutImage Blank (drawHistory s ! nat (historyPointer s')))
       \<and> historyPointer (boardOf (actionEffect e
            (s\<lparr>historyPointer := 0, actionMenuItem := Some Undo\<rparr>))) = 0
       \<and> historyPointer (boardOf (actionEffect e
            (s\<lparr>historyPointer := int (length (drawHistory s)) - 1,
               actionMenuItem := Some Redo\<rparr>))) = int (length (drawHistory s)) - 1"
proof -
  have ok: "historyOk s"
    using assms(3,4) by (simp add: historyOk_def)
  have lo: "historyOk (s\<lparr>historyPointer := 0\<rparr>)"
    and hi: "historyOk (s\<lparr>historyPointer := int (length (drawHistory s)) - 1\<rparr>)"
    using assms(2) by (simp_all add: historyOk_def)
  have m: "canvasMounted (s\<lparr>historyPointer := 0\<rparr>)"
    "canvasMounted (s\<lparr>historyPointer := int (length (drawHistory s)) - 1\<rparr>)"
    using assms(1) by simp_all
  have at_lo: "historyPointer (boardOf (actionEffect e
            (s\<lparr>historyPointer := 0, actionMenuItem := Some Undo\<rparr>))) = 0"
    using undo_step [OF m(1) lo, of e] by simp
  have at_hi: "historyPointer (boardOf (actionEffect e
            (s\<lparr>historyPointer := int (length (drawHistory s)) - 1,
               actionMenuItem := Some Redo\<rparr>))) = int (length (drawHistory s)) - 1"
    using redo_step [OF m(2) hi, of e] by simp
  have un: "\<exists>s'. actionEffect e (s\<lparr>actionMenuItem := Some Undo\<rparr>) = Done s'
            \<and> historyPointer s' = max 0 (historyPointer s - 1)
            \<and> drawHistory s' = drawHistory s
            \<and> nth_js (drawHistory s) (historyPointer s')
                = Some (drawHistory s ! nat (historyPointer s'))
            \<and> pixels (canvas s') = PutImage Blank (drawHistory s ! nat (historyPointer s'))"
    using assms(3,4)
    by (auto simp: undo_step [OF assms(1) ok] putImageData_def setup_canvas nth_js_def)
  have re: "\<exists>s'. actionEffect e (s\<lparr>actionMenuItem := Some Redo\<rparr>) = Done s'
            \<and> historyPointer s' = min (int (length (drawHistory s)) - 1) (historyPointer s + 1)
            \<and> drawHistory s' = drawHistory s
            \<and> nth_js (drawHistory s) (historyPointer s')
                = Some (drawHistory s ! nat (historyPointer s'))
            \<and> pixels (canvas s') = PutImage Blank (drawHistory s ! nat (historyPointer s'))"
    using assms(3,4)
    by (auto simp: redo_step [OF assms(1) ok] putImageData_def setup_canvas nth_js_def)
  from un re at_lo at_hi show ?thesis
    by blast
qed

text \<open>
  What a run of the effect does to the rest of the board. The context is back at its
  defaults but for the scale and the round caps and joins, so the colour and the width
  a configuration had stored are gone; and a click on Undo or Redo, which is the run for
  the command followed by the run for the cleared command, ends on a blank surface.
\<close>

lemma action_effect_resets_style:
  assumes "canvasMounted s"
  shows "dstate (canvas (boardOf (actionEffect e (s\<lparr>actionMenuItem := None\<rparr>)))) =
           \<lparr>strokeStyle = ''#000000'', lineWidth = 1, lineCap = RoundCap,
            lineJoin = RoundJoin, scaleBy = (pixelRatio e, pixelRatio e)\<rparr>"
  by (simp add: null_step [OF assms] setup_canvas)

lemma click_ends_blank:
  assumes "canvasMounted s" and "historyOk s" and "a = Some Undo \<or> a = Some Redo"
  shows "\<exists>s'. runActions [(e, a), (e', None)] s = Done s' \<and> pixels (canvas s') = Blank"
proof -
  from action_step_keeps [OF assms(1,2), of e a]
  obtain s1 where s1: "actionEffect e (s\<lparr>actionMenuItem := a\<rparr>) = Done s1"
    "canvasMounted s1" by blast
  from null_step [OF s1(2), of e'] s1(1) show ?thesis
    by (simp add: setup_canvas)
qed

text \<open>
  Pointer events and stroke messages leave the drawing state of the context alone: a
  colour and width stored by a configuration stay until the next configuration or the
  next canvas set-up.
\<close>

lemma stroke_event_keeps_style:
  assumes "isStrokeEvent ev"
  shows "dstate (canvas (boardOf (dispatchEvent e ev s))) = dstate (canvas s)"
proof (cases ev)
  case (Received m)
  then show ?thesis
    by (cases m)
      (simp_all add: onBeginPath_def onDrawLine_def stroke_def lineTo_def moveTo_def
        beginPath_def)
next
  case PointerUp
  then show ?thesis
    by (simp add: handleDrawEnd_def getImageData_def Let_def)
qed (use assms in \<open>simp_all add: handleDrawStart_def handleDrawMove_def drawSmoothLine_def
      stroke_def bezierCurveTo_def moveTo_def beginPath_def Let_def\<close>)

lemma isStrokeEvent_listener:
  assumes "isStrokeEvent ev"
  shows "\<not> isEffect ev"
  using assms by (cases ev) simp_all

lemma stroke_events_keep_style:
  assumes "list_all (\<lambda>x. isStrokeEvent (snd x)) evs"
  shows "\<exists>s1. run evs s = Done s1 \<and> dstate (canvas s1) = dstate (canvas s)"
  using assms
proof (induction evs arbitrary: s)
  case Nil
  then show ?case by simp
next
  case (Cons x evs)
  obtain e ev where x: "x = (e, ev)" by (cases x)
  with Cons.prems have ev: "isStrokeEvent ev"
    and rest: "list_all (\<lambda>x. isStrokeEvent (snd x)) evs"
    by simp_all
  define s1 where "s1 = boardOf (dispatchEvent e ev s)"
  have step: "run (x # evs) s = run evs s1"
    using x isStrokeEvent_listener [OF ev]
    by (cases "dispatchEvent e ev s") (simp_all add: s1_def)
  have "dstate (canvas s1) = dstate (canvas s)"
    using stroke_event_keeps_style [OF ev, of e s] by (simp add: s1_def)
  with Cons.IH [OF rest, of s1] step show ?case by simp
qed

text \<open>
  What the two setters store, and what the next segment is painted with: the colour and
  the width that the context holds when the segment is drawn.
\<close>

lemma changeConfig_stores:
  assumes "parsesColor e col" and "0 < w"
  shows "dstate (changeConfig e col (Some w) c) =
           (dstate c)\<lparr>strokeStyle := col, lineWidth := w, lineCap := RoundCap,
                      lineJoin := RoundJoin\<rparr>"
  using assms by (simp add: changeConfig_def set_strokeStyle_def set_lineWidth_def Let_def)

lemma segment_painted_with:
  "paintedWith (pixels (canvas (onDrawLine q s))) =
     Some (strokeStyle (dstate (canvas s)), lineWidth (dstate (canvas s)))"
  "paintedWith (pixels (canvas (handleDrawMove ev (handleDrawStart ev0 s)))) =
     Some (strokeStyle (dstate (canvas s)), lineWidth (dstate (canvas s)))"
  "shouldDraw s \<Longrightarrow>
     paintedWith (pixels (canvas (handleDrawMove ev s))) =
       Some (strokeStyle (dstate (canvas s)), lineWidth (dstate (canvas s)))"
  by (simp_all add: onDrawLine_def handleDrawMove_def handleDrawStart_def drawSmoothLine_def
      stroke_def lineTo_def bezierCurveTo_def moveTo_def beginPath_def Let_def)

subsection \<open>The history invariant in every reachable state\<close>

lemma historyInv_fresh: "historyInv freshBoard"
  by (simp add: historyInv_def freshBoard_def)

lemma receive_frame:
  "receive m s = s\<lparr>canvas := (canvas s)\<lparr>pixels := pixels (canvas (receive m s)),
                                         path := path (canvas (receive m s))\<rparr>\<rparr>"
  by (cases m)
    (simp_all add: onBeginPath_def onDrawLine_def stroke_def lineTo_def moveTo_def
      beginPath_def)

lemma receive_history:
  "drawHistory (receive m s) = drawHistory s"
  "historyPointer (receive m s) = historyPointer s"
  "canvasMounted (receive m s) = canvasMounted s"
  by (subst receive_frame, simp)+

lemma historyInv_action:
  assumes "historyInv s"
  shows "historyInv (boardOf (actionEffect e (s\<lparr>actionMenuItem := a\<rparr>)))"
proof (cases "drawHistory s = []")
  case True
  with assms have m: "canvasMounted s" and p: "historyPointer s = 0 \<or> historyPointer s = - 1"
    by (simp_all add: historyInv_def)
  show ?thesis
  proof (cases a)
    case None
    with m p True show ?thesis by (auto simp: null_step historyInv_def)
  next
    case (Some c)
    show ?thesis
    proof (cases c)
      case Download
      with Some m p True show ?thesis by (auto simp: download_step historyInv_def)
    next
      case Undo
      with Some m p True show ?thesis
        by (auto simp: undo_redo_empty(1) [OF m True] historyInv_def)
    next
      case Redo
      with Some m p True show ?thesis
        by (auto simp: undo_redo_empty(2) [OF m True] historyInv_def)
    qed
  qed
next
  case False
  with assms have m: "canvasMounted s" and ok: "historyOk s"
    by (simp_all add: historyInv_def)
  from action_step_keeps [OF m ok, of e a] False
  show ?thesis by (auto simp: historyInv_def)
qed

lemma historyInv_end:
  assumes "historyInv s"
  shows "historyInv (boardOf (handleDrawEnd s))"
  using assms
  by (auto simp: handleDrawEnd_def getImageData_def historyInv_def historyOk_def Let_def)

lemma historyInv_dispatch:
  assumes "historyInv s"
  shows "historyInv (boardOf (dispatchEvent e ev s))"
proof (cases ev)
  case (ActionChanged a)
  with historyInv_action [OF assms] show ?thesis by simp
next
  case PointerUp
  with historyInv_end [OF assms] show ?thesis by simp
next
  case (Received m)
  with assms show ?thesis
    by (auto simp: historyInv_def historyOk_def receive_history split: if_splits)
qed (use assms in \<open>auto simp: historyInv_def historyOk_def styleEffect_def resize_canvas
      handleDrawStart_def handleDrawMove_def handleChangeConfig_def Let_def
      split: if_splits\<close>)

lemma historyInv_run:
  assumes "historyInv s"
  shows "historyInv (boardOf (run evs s))"
  using assms
proof (induction evs arbitrary: s)
  case Nil
  then show ?case by simp
next
  case (Cons x evs)
  obtain e ev where x: "x = (e, ev)" by (cases x)
  show ?case
  proof (cases "dispatchEvent e ev s")
    case (Done s1)
    with historyInv_dispatch [OF Cons.prems, of e ev] have "historyInv s1" by simp
    from Cons.IH [OF this] Done x show ?thesis by simp
  next
    case (Threw err s1)
    with historyInv_dispatch [OF Cons.prems, of e ev] have inv: "historyInv s1" by simp
    show ?thesis
    proof (cases "isEffect ev")
      case True
      with Threw inv x show ?thesis by simp
    next
      case False
      with Cons.IH [OF inv] Threw x show ?thesis by simp
    qed
  qed
qed

text \<open>
  Whatever reaches a freshly mounted board, in whatever order, and whether or not a
  listener or an effect throws on the way: once a snapshot was recorded the pointer
  indexes one.
\<close>

lemma history_invariant_reachable:
  assumes "s = boardOf (run evs freshBoard)" and "drawHistory s \<noteq> []"
  shows "canvasMounted s \<and> 0 \<le> historyPointer s
           \<and> historyPointer s < int (length (drawHistory s))"
  using historyInv_run [OF historyInv_fresh, of evs] assms
  by (simp add: historyInv_def historyOk_def)


section \<open>The properties of the specification\<close>

subsection \<open>History manager\<close>

text \<open>
  C1. On a mounted board whose history holds \<open>N \<ge> 1\<close> snapshots and whose pointer
  indexes one of them, every sequence of action commands runs without an exception, and
  after each of its operations (after every prefix \<open>take k ops\<close>) the pointer is within
  \<open>[0, N - 1]\<close> and the snapshot sequence is the one the run started with. The sequence
  may hold Undo and Redo in any order, and also the clearing to \<open>null\<close> that follows
  each command and Download, which leave the pointer where it is.
\<close>

theorem history_pointer_in_range:
  assumes "canvasMounted s"
    and "drawHistory s \<noteq> []"
    and "0 \<le> historyPointer s"
    and "historyPointer s < int (length (drawHistory s))"
  shows "\<exists>s'. runActions (take k ops) s = Done s'
           \<and> 0 \<le> historyPointer s'
           \<and> historyPointer s' \<le> int (length (drawHistory s)) - 1
           \<and> drawHistory s' = drawHistory s"
proof -
  have "historyOk s"
    using assms(3,4) by (simp add: historyOk_def)
  from runActions_keeps [OF assms(1) this, of "take k ops"]
  show ?thesis
    by (auto simp: historyOk_def)
qed

theorem history_pointer_in_range_witness:
  "canvasMounted sampleBoard \<and> drawHistory sampleBoard \<noteq> []
   \<and> 0 \<le> historyPointer sampleBoard
   \<and> historyPointer sampleBoard < int (length (drawHistory sampleBoard))
   \<and> (\<exists>s'. runActions
              (take 3 [(sampleEnv, Some Undo), (sampleEnv, None), (sampleEnv, Some Undo),
                       (sampleEnv, Some Redo)]) sampleBoard = Done s'
          \<and> 0 \<le> historyPointer s' \<and> historyPointer s' \<le> 1
          \<and> drawHistory s' = [ImageData 300 150 Blank, ImageData 300 150 sampleStroke])"
proof -
  have h: "canvasMounted sampleBoard" "drawHistory sampleBoard \<noteq> []"
    "0 \<le> historyPointer sampleBoard"
    "historyPointer sampleBoard < int (length (drawHistory sampleBoard))"
    by (simp_all add: sampleBoard_def freshBoard_def)
  have d: "drawHistory sampleBoard = [ImageData 300 150 Blank, ImageData 300 150 sampleStroke]"
    by (simp add: sampleBoard_def)
  from history_pointer_in_range [OF h, of 3
      "[(sampleEnv, Some Undo), (sampleEnv, None), (sampleEnv, Some Undo),
        (sampleEnv, Some Redo)]"]
  show ?thesis
    using h by (simp add: d)
qed

text \<open>
  C2. The pointer moves as stated and no exception escapes, but the snapshot does not
  stay on the surface. The run of the effect for the command writes the snapshot onto
  the canvas and dispatches the clearing of the command; the command changes to
  \<open>None\<close>, the effect runs again, sets the canvas up and the bitmap is cleared. On a
  board whose two snapshots each show a stroke, with the pointer at \<open>1\<close>: the run for
  Undo returns with the pointer at \<open>0\<close> and the first snapshot on the surface, and
  when the click is over (the run for Undo, then the run for the cleared command) the
  pointer is \<open>0\<close> and the surface is blank. Redo, in the same way, leaves the
  pointer at \<open>1\<close> and a blank surface.
\<close>

theorem undo_click_wipes_snapshot:
  "actionEffect sampleEnv (strokedBoard\<lparr>actionMenuItem := Some Undo\<rparr>) =
     Done (strokedBoard
             \<lparr>canvas := putImageData (ImageData 300 150 sampleStroke)
                          (setupHighResCanvas sampleEnv (canvas strokedBoard)),
              historyPointer := 0, actionMenuItem := None\<rparr>)
   \<and> runActions [(sampleEnv, Some Undo), (sampleEnv, None)] strokedBoard =
     Done (strokedBoard
             \<lparr>canvas := setupHighResCanvas sampleEnv (canvas strokedBoard),
              historyPointer := 0, actionMenuItem := None\<rparr>)
   \<and> runActions [(sampleEnv, Some Redo), (sampleEnv, None)] strokedBoard =
     Done (strokedBoard
             \<lparr>canvas := setupHighResCanvas sampleEnv (canvas strokedBoard),
              historyPointer := 1, actionMenuItem := None\<rparr>)
   \<and> nth_js (drawHistory strokedBoard) 0 = Some (ImageData 300 150 sampleStroke)
   \<and> nth_js (drawHistory strokedBoard) 1 = Some (ImageData 300 150 secondStroke)
   \<and> pixels (putImageData (ImageData 300 150 sampleStroke)
               (setupHighResCanvas sampleEnv (canvas strokedBoard))) =
       PutImage Blank (ImageData 300 150 sampleStroke)
   \<and> pixels (setupHighResCanvas sampleEnv (canvas strokedBoard)) = Blank"
proof -
  have m: "canvasMounted strokedBoard"
    and ok: "historyOk strokedBoard"
    and d: "drawHistory strokedBoard =
              [ImageData 300 150 sampleStroke, ImageData 300 150 secondStroke]"
    and p: "historyPointer strokedBoard = 1"
    by (simp_all add: strokedBoard_def freshBoard_def historyOk_def)
  have undo: "actionEffect sampleEnv (strokedBoard\<lparr>actionMenuItem := Some Undo\<rparr>) =
     Done (strokedBoard
             \<lparr>canvas := putImageData (ImageData 300 150 sampleStroke)
                          (setupHighResCanvas sampleEnv (canvas strokedBoard)),
              historyPointer := 0, actionMenuItem := None\<rparr>)"
    using undo_step [OF m ok, of sampleEnv] by (simp add: d p)
  have redo: "actionEffect sampleEnv (strokedBoard\<lparr>actionMenuItem := Some Redo\<rparr>) =
     Done (strokedBoard
             \<lparr>canvas := putImageData (ImageData 300 150 secondStroke)
                          (setupHighResCanvas sampleEnv (canvas strokedBoard)),
              historyPointer := 1, actionMenuItem := None\<rparr>)"
    using redo_step [OF m ok, of sampleEnv] by (simp add: d p)
  have again: "actionEffect sampleEnv
       (strokedBoard\<lparr>canvas := putImageData img
                                  (setupHighResCanvas sampleEnv (canvas strokedBoard)),
                     historyPointer := k, actionMenuItem := None\<rparr>) =
     Done (strokedBoard
             \<lparr>canvas := setupHighResCanvas sampleEnv (canvas strokedBoard),
              historyPointer := k, actionMenuItem := None\<rparr>)" for img k
    using m by (simp add: actionEffect_def actionBranch_def setup_canvas)
  have click_undo: "runActions [(sampleEnv, Some Undo), (sampleEnv, None)] strokedBoard =
     Done (strokedBoard
             \<lparr>canvas := setupHighResCanvas sampleEnv (canvas strokedBoard),
              historyPointer := 0, actionMenuItem := None\<rparr>)"
    by (simp add: undo again)
  have click_redo: "runActions [(sampleEnv, Some Redo), (sampleEnv, None)] strokedBoard =
     Done (strokedBoard
             \<lparr>canvas := setupHighResCanvas sampleEnv (canvas strokedBoard),
              historyPointer := 1, actionMenuItem := None\<rparr>)"
    by (simp add: redo again)
  have snaps: "nth_js (drawHistory strokedBoard) 0 = Some (ImageData 300 150 sampleStroke)"
    "nth_js (drawHistory strokedBoard) 1 = Some (ImageData 300 150 secondStroke)"
    by (simp_all add: d nth_js_def)
  have px: "pixels (putImageData (ImageData 300 150 sampleStroke)
               (setupHighResCanvas sampleEnv (canvas strokedBoard))) =
       PutImage Blank (ImageData 300 150 sampleStroke)"
    "pixels (setupHighResCanvas sampleEnv (canvas strokedBoard)) = Blank"
    by (simp_all add: putImageData_def setup_canvas)
  from undo click_undo click_redo snaps px show ?thesis
    by blast
qed

text \<open>
  C3. When a gesture ends on a canvas whose bitmap has pixels, the captured surface is
  appended to the end of the snapshot sequence and the pointer is set to its index, the
  last one. This holds for every history, wherever its pointer stood before (so also
  after undos): all earlier snapshots are kept, in their places.
\<close>

theorem record_snapshot_appends:
  assumes "shouldDraw s"
    and "0 < width (canvas s)"
    and "0 < height (canvas s)"
  shows "\<exists>s'. handleDrawEnd s = Done s'
           \<and> drawHistory s' =
               drawHistory s @
                 [ImageData (width (canvas s)) (height (canvas s)) (pixels (canvas s))]
           \<and> historyPointer s' = int (length (drawHistory s')) - 1
           \<and> historyPointer s' = int (length (drawHistory s))
           \<and> take (length (drawHistory s)) (drawHistory s') = drawHistory s"
  using assms by (simp add: handleDrawEnd_def getImageData_def Let_def)

theorem record_snapshot_appends_witness:
  "shouldDraw (sampleBoard\<lparr>shouldDraw := True, historyPointer := 0\<rparr>)
   \<and> 0 < width (canvas (sampleBoard\<lparr>shouldDraw := True, historyPointer := 0\<rparr>))
   \<and> 0 < height (canvas (sampleBoard\<lparr>shouldDraw := True, historyPointer := 0\<rparr>))
   \<and> (\<exists>s'. handleDrawEnd (sampleBoard\<lparr>shouldDraw := True, historyPointer := 0\<rparr>) = Done s'
          \<and> drawHistory s' =
              [ImageData 300 150 Blank, ImageData 300 150 sampleStroke, ImageData 300 150 Blank]
          \<and> historyPointer s' = 2)"
proof -
  have h: "shouldDraw (sampleBoard\<lparr>shouldDraw := True, historyPointer := 0\<rparr>)"
    "0 < width (canvas (sampleBoard\<lparr>shouldDraw := True, historyPointer := 0\<rparr>))"
    "0 < height (canvas (sampleBoard\<lparr>shouldDraw := True, historyPointer := 0\<rparr>))"
    by (simp_all add: sampleBoard_def freshBoard_def)
  from record_snapshot_appends [OF h]
  show ?thesis
    using h by (auto simp: sampleBoard_def freshBoard_def)
qed

text \<open>
  C4. Out-of-range Undo and Redo are not always silent. On the board as it is mounted,
  before any stroke was finished, the history is empty and the pointer is \<open>0\<close>:
  the effect run for Undo writes the pointer \<open>0\<close>,
  reads \<^verbatim>\<open>drawHistory.current[0]\<close>, which is \<^verbatim>\<open>undefined\<close>, and
  \<^verbatim>\<open>putImageData\<close> throws \<^verbatim>\<open>TypeError\<close>; the one for Redo writes the pointer
  \<open>-1\<close> and throws likewise. Neither run reaches the clearing of the command.
\<close>

theorem undo_on_empty_history_throws:
  "actionEffect e' ((mountBoard e col sz)\<lparr>actionMenuItem := Some Undo\<rparr>) =
     Threw TypeError
       ((mountBoard e col sz)\<lparr>canvas := setupHighResCanvas e' (canvas (mountBoard e col sz)),
                               actionMenuItem := Some Undo, historyPointer := 0\<rparr>)
   \<and> actionEffect e' ((mountBoard e col sz)\<lparr>actionMenuItem := Some Redo\<rparr>) =
     Threw TypeError
       ((mountBoard e col sz)\<lparr>canvas := setupHighResCanvas e' (canvas (mountBoard e col sz)),
                               actionMenuItem := Some Redo, historyPointer := - 1\<rparr>)
   \<and> drawHistory (mountBoard e col sz) = []
   \<and> historyPointer (mountBoard e col sz) = 0"
proof -
  have m: "canvasMounted (mountBoard e col sz)"
    and d: "drawHistory (mountBoard e col sz) = []"
    and p: "historyPointer (mountBoard e col sz) = 0"
    by (simp_all add: mountBoard_def styleEffect_def actionEffect_def actionBranch_def
        resize_canvas freshBoard_def)
  from undo_redo_empty [OF m d, of e'] d p show ?thesis
    by simp
qed

subsection \<open>Input capture\<close>

text \<open>
  C5. A move event that arrives while no gesture is active leaves the whole board as it
  was: the canvas (path and pixels), the last position, the history and the log of
  emitted messages. No gesture is active on the freshly mounted board, nor on the board
  that the end of a gesture leaves behind.
\<close>

theorem move_while_inactive_noop:
  assumes "\<not> shouldDraw s"
  shows "handleDrawMove ev s = s
       \<and> handleDrawMove ev freshBoard = freshBoard
       \<and> handleDrawMove ev (boardOf (handleDrawEnd t)) = boardOf (handleDrawEnd t)"
  using assms
  by (simp add: handleDrawMove_def handleDrawEnd_def freshBoard_def Let_def
      split: option.splits)

theorem move_while_inactive_noop_witness:
  "\<not> shouldDraw sampleBoard
   \<and> handleDrawMove (MouseEvent (3, 4)) sampleBoard = sampleBoard
   \<and> emitted (handleDrawMove (MouseEvent (3, 4)) sampleBoard) = []
   \<and> pixels (canvas (handleDrawMove (MouseEvent (3, 4)) sampleBoard)) = Blank"
proof -
  have h: "\<not> shouldDraw sampleBoard"
    by (simp add: sampleBoard_def freshBoard_def)
  from move_while_inactive_noop [OF h, of "MouseEvent (3, 4)"]
  show ?thesis
    using h by (simp add: sampleBoard_def freshBoard_def)
qed

subsection \<open>Stroke renderer\<close>

text \<open>
  C6. \<open>drawSmoothLine\<close> leaves a path of one subpath from \<open>(x1, y1)\<close> with one cubic
  curve to \<open>(x2, y2)\<close>, whose control points are \<open>(x1 + 0.3 (x2 - x1), y1 + 0.3 (y2 - y1))\<close>
  and \<open>(x1 + 0.7 (x2 - x1), y1 + 0.7 (y2 - y1))\<close>, and strokes that path once over the
  earlier content. Between \<open>(0, 0)\<close> and \<open>(10, 0)\<close> the control points are \<open>(3, 0)\<close>
  and \<open>(7, 0)\<close>.
\<close>

theorem drawSmoothLine_control_points:
  "path (drawSmoothLine x1 y1 x2 y2 c) =
     [((x1, y1), [BezierCurveTo (x1 + 0.3 * (x2 - x1), y1 + 0.3 * (y2 - y1))
                                (x1 + 0.7 * (x2 - x1), y1 + 0.7 * (y2 - y1)) (x2, y2)])]
   \<and> pixels (drawSmoothLine x1 y1 x2 y2 c) =
       Stroke (pixels c) (path (drawSmoothLine x1 y1 x2 y2 c)) (dstate c)
   \<and> path (drawSmoothLine 0 0 10 0 c) = [((0, 0), [BezierCurveTo (3, 0) (7, 0) (10, 0)])]"
  by (simp add: drawSmoothLine_def stroke_def bezierCurveTo_def moveTo_def beginPath_def
      extendLast_def Let_def)

subsection \<open>Sync channel\<close>


text \<open>
  C8. Whatever stroke messages are received, one or many, the snapshot sequence and the
  history pointer are what they were; one message changes nothing on the board but the
  pixels and the path of the canvas.
\<close>

theorem remote_stroke_keeps_history:
  "drawHistory (fold receive ms s) = drawHistory s
   \<and> historyPointer (fold receive ms s) = historyPointer s
   \<and> drawHistory (receive m s) = drawHistory s
   \<and> historyPointer (receive m s) = historyPointer s
   \<and> receive m s = s\<lparr>canvas := (canvas s)\<lparr>pixels := pixels (canvas (receive m s)),
                                           path := path (canvas (receive m s))\<rparr>\<rparr>"
proof -
  have "drawHistory (fold receive ms s) = drawHistory s
      \<and> historyPointer (fold receive ms s) = historyPointer s"
  proof (induction ms arbitrary: s)
    case Nil
    show ?case by simp
  next
    case (Cons m' ms)
    then show ?case by (simp add: receive_history)
  qed
  with receive_frame [of m s] show ?thesis
    by (simp add: receive_history)
qed

text \<open>
  C9. A configuration message whose colour the browser parses and whose size is a
  positive finite number, and likewise a local change to such a colour and size on a
  mounted board, is stored in the context when the handler returns, before anything
  else is handled. Whatever pointer events and stroke messages follow, the context
  keeps the colour and the width, and the segment drawn next is painted with them: a
  remote one (a received DrawLine), a local one of a gesture started then, and a local
  one of a gesture under way.
\<close>

theorem config_applies_until_setup:
  assumes "parsesColor e (color cfg)"
    and "penSize cfg = Some w"
    and "0 < w"
    and "list_all (\<lambda>x. isStrokeEvent (snd x)) evs"
  shows "(\<exists>s1. run evs (handleChangeConfig e cfg s) = Done s1
            \<and> strokeStyle (dstate (canvas s1)) = color cfg
            \<and> lineWidth (dstate (canvas s1)) = w
            \<and> paintedWith (pixels (canvas (onDrawLine q s1))) = Some (color cfg, w)
            \<and> paintedWith (pixels (canvas (handleDrawMove ev (handleDrawStart ev0 s1))))
                = Some (color cfg, w)
            \<and> (shouldDraw s1 \<longrightarrow>
                 paintedWith (pixels (canvas (handleDrawMove ev s1))) = Some (color cfg, w)))
       \<and> (canvasMounted s \<longrightarrow>
            (\<exists>s1. run evs (styleEffect e (color cfg) (penSize cfg) s) = Done s1
               \<and> strokeStyle (dstate (canvas s1)) = color cfg
               \<and> lineWidth (dstate (canvas s1)) = w
               \<and> paintedWith (pixels (canvas (onDrawLine q s1))) = Some (color cfg, w)
               \<and> paintedWith (pixels (canvas (handleDrawMove ev (handleDrawStart ev0 s1))))
                   = Some (color cfg, w)
               \<and> (shouldDraw s1 \<longrightarrow>
                    paintedWith (pixels (canvas (handleDrawMove ev s1)))
                      = Some (color cfg, w))))"
proof -
  have stored: "strokeStyle (dstate (changeConfig e (color cfg) (penSize cfg) c)) = color cfg"
    "lineWidth (dstate (changeConfig e (color cfg) (penSize cfg) c)) = w" for c
    using changeConfig_stores [OF assms(1,3), of c] assms(2) by simp_all
  have after: "\<exists>s1. run evs s0 = Done s1
            \<and> strokeStyle (dstate (canvas s1)) = color cfg
            \<and> lineWidth (dstate (canvas s1)) = w
            \<and> paintedWith (pixels (canvas (onDrawLine q s1))) = Some (color cfg, w)
            \<and> paintedWith (pixels (canvas (handleDrawMove ev (handleDrawStart ev0 s1))))
                = Some (color cfg, w)
            \<and> (shouldDraw s1 \<longrightarrow>
                 paintedWith (pixels (canvas (handleDrawMove ev s1))) = Some (color cfg, w))"
    if "strokeStyle (dstate (canvas s0)) = color cfg" "lineWidth (dstate (canvas s0)) = w"
    for s0
  proof -
    from stroke_events_keep_style [OF assms(4), of s0]
    obtain s1 where s1: "run evs s0 = Done s1" "dstate (canvas s1) = dstate (canvas s0)"
      by blast
    with that have "strokeStyle (dstate (canvas s1)) = color cfg"
      "lineWidth (dstate (canvas s1)) = w"
      by simp_all
    with s1(1) show ?thesis
      by (simp add: segment_painted_with)
  qed
  have handler: "strokeStyle (dstate (canvas (handleChangeConfig e cfg s))) = color cfg"
    "lineWidth (dstate (canvas (handleChangeConfig e cfg s))) = w"
    by (simp_all add: handleChangeConfig_def stored)
  have effect: "strokeStyle (dstate (canvas (styleEffect e (color cfg) (penSize cfg) s)))
                  = color cfg"
    "lineWidth (dstate (canvas (styleEffect e (color cfg) (penSize cfg) s))) = w"
    if "canvasMounted s"
    using that by (simp_all add: styleEffect_def stored)
  from after [OF handler] after [OF effect] show ?thesis
    by blast
qed

theorem config_applies_until_setup_witness:
  "parsesColor sampleEnv (color \<lparr>color = ''#ff0000'', penSize = Some 4\<rparr>)
   \<and> penSize \<lparr>color = ''#ff0000'', penSize = Some 4\<rparr> = Some 4
   \<and> (0::real) < 4
   \<and> list_all (\<lambda>x. isStrokeEvent (snd x))
         [(sampleEnv, Received (BeginPath (5, 5))), (sampleEnv, PointerDown (MouseEvent (0, 0)))]
   \<and> canvasMounted sampleBoard
   \<and> (\<exists>s1. run [(sampleEnv, Received (BeginPath (5, 5))),
                   (sampleEnv, PointerDown (MouseEvent (0, 0)))]
              (handleChangeConfig sampleEnv \<lparr>color = ''#ff0000'', penSize = Some 4\<rparr>
                 sampleBoard) = Done s1
          \<and> shouldDraw s1
          \<and> paintedWith (pixels (canvas (onDrawLine (15, 5) s1))) = Some (''#ff0000'', 4)
          \<and> paintedWith (pixels (canvas (handleDrawMove (MouseEvent (10, 0)) s1)))
              = Some (''#ff0000'', 4))
   \<and> (\<exists>s1. run [(sampleEnv, Received (BeginPath (5, 5))),
                   (sampleEnv, PointerDown (MouseEvent (0, 0)))]
              (styleEffect sampleEnv ''#ff0000'' (Some 4) sampleBoard) = Done s1
          \<and> shouldDraw s1
          \<and> paintedWith (pixels (canvas (onDrawLine (15, 5) s1))) = Some (''#ff0000'', 4)
          \<and> paintedWith (pixels (canvas (handleDrawMove (MouseEvent (10, 0)) s1)))
              = Some (''#ff0000'', 4))"
proof -
  have h: "parsesColor sampleEnv (color \<lparr>color = ''#ff0000'', penSize = Some 4\<rparr>)"
    "penSize \<lparr>color = ''#ff0000'', penSize = Some 4\<rparr> = Some 4"
    "(0::real) < 4"
    "list_all (\<lambda>x. isStrokeEvent (snd x))
       [(sampleEnv, Received (BeginPath (5, 5))), (sampleEnv, PointerDown (MouseEvent (0, 0)))]"
    by (simp_all add: sampleEnv_def hexColor_def)
  have m: "canvasMounted sampleBoard"
    by (simp add: sampleBoard_def freshBoard_def)
  have r: "run [(sampleEnv, Received (BeginPath (5, 5))),
                (sampleEnv, PointerDown (MouseEvent (0, 0)))] s0 =
             Done (handleDrawStart (MouseEvent (0, 0)) (onBeginPath (5, 5) s0))" for s0
    by simp
  have active: "shouldDraw (handleDrawStart p s0)" for p s0
    by (simp add: handleDrawStart_def Let_def)
  from config_applies_until_setup [OF h, of sampleBoard "(15, 5)" "MouseEvent (10, 0)"
      "MouseEvent (0, 0)"] m
  show ?thesis
    using h by (simp add: r active)
qed

text \<open>
  The colour and the width of a configuration do not reach the next segment in every
  case. When the effect of the action commands runs between the configuration and the
  segment (here for Download), the canvas set-up puts the context back to black at
  width \<open>1\<close>, and the next segment, remote or local, is painted so. And a
  configuration with the width \<open>0\<close> leaves the width of the context as it was,
  \<open>1\<close> here, and one with a string that is no colour leaves the colour as it was.
\<close>

theorem config_lost_or_ignored:
  "paintedWith (pixels (canvas (onDrawLine (15, 5)
      (boardOf (actionEffect sampleEnv
         ((handleChangeConfig sampleEnv \<lparr>color = ''#ff0000'', penSize = Some 4\<rparr> sampleBoard)
            \<lparr>actionMenuItem := Some Download\<rparr>))))))
     = Some (''#000000'', 1)
   \<and> paintedWith (pixels (canvas (handleDrawMove (MouseEvent (10, 0))
      (handleDrawStart (MouseEvent (0, 0))
         (boardOf (actionEffect sampleEnv
            ((handleChangeConfig sampleEnv \<lparr>color = ''#ff0000'', penSize = Some 4\<rparr>
                sampleBoard)
               \<lparr>actionMenuItem := Some Download\<rparr>)))))))
     = Some (''#000000'', 1)
   \<and> paintedWith (pixels (canvas (onDrawLine (15, 5)
      (handleChangeConfig sampleEnv \<lparr>color = ''#ff0000'', penSize = Some 0\<rparr> sampleBoard))))
     = Some (''#ff0000'', 1)
   \<and> paintedWith (pixels (canvas (onDrawLine (15, 5)
      (handleChangeConfig sampleEnv \<lparr>color = ''no colour'', penSize = Some 4\<rparr> sampleBoard))))
     = Some (''#000000'', 4)"
proof -
  have m: "canvasMounted (handleChangeConfig sampleEnv cfg sampleBoard)" for cfg
    by (simp add: handleChangeConfig_def sampleBoard_def freshBoard_def)
  have reset: "dstate (canvas (boardOf (actionEffect sampleEnv
         ((handleChangeConfig sampleEnv cfg sampleBoard)\<lparr>actionMenuItem := Some Download\<rparr>)))) =
       \<lparr>strokeStyle = ''#000000'', lineWidth = 1, lineCap = RoundCap, lineJoin = RoundJoin,
        scaleBy = (pixelRatio sampleEnv, pixelRatio sampleEnv)\<rparr>" for cfg
    by (simp add: download_step [OF m] setup_canvas)
  have zero: "dstate (canvas (handleChangeConfig sampleEnv
                 \<lparr>color = ''#ff0000'', penSize = Some 0\<rparr> sampleBoard)) =
       \<lparr>strokeStyle = ''#ff0000'', lineWidth = 1, lineCap = RoundCap, lineJoin = RoundJoin,
        scaleBy = (1, 1)\<rparr>"
    by (simp add: handleChangeConfig_def changeConfig_def set_strokeStyle_def
        set_lineWidth_def sampleEnv_def hexColor_def sampleBoard_def freshBoard_def
        defaultState_def Let_def)
  have nocolour: "dstate (canvas (handleChangeConfig sampleEnv
                 \<lparr>color = ''no colour'', penSize = Some 4\<rparr> sampleBoard)) =
       \<lparr>strokeStyle = ''#000000'', lineWidth = 4, lineCap = RoundCap, lineJoin = RoundJoin,
        scaleBy = (1, 1)\<rparr>"
    by (simp add: handleChangeConfig_def changeConfig_def set_strokeStyle_def
        set_lineWidth_def sampleEnv_def hexColor_def sampleBoard_def freshBoard_def
        defaultState_def Let_def)
  show ?thesis
    by (simp add: segment_painted_with(1,2) reset zero nocolour)
qed

subsection \<open>Surface controller\<close>

text \<open>
  C10. On a mounted board every run of the action effect, whatever the command and also
  for the cleared command \<open>None\<close>, is the branch on the command run on the board whose
  canvas went through \<open>setupHighResCanvas\<close>: the bitmap dimensions are assigned from
  the rectangle and the pixel ratio, the surface is blank and the transform is the
  scale by the pixel ratio when the branch starts. So the run for the cleared command
  returns a board with a blank surface, and Download hands a blank image to the sink.
\<close>

theorem action_effect_resets_canvas:
  assumes "canvasMounted s"
  shows "actionEffect e s = actionBranch (s\<lparr>canvas := setupHighResCanvas e (canvas s)\<rparr>)
       \<and> pixels (setupHighResCanvas e (canvas s)) = Blank
       \<and> width (setupHighResCanvas e (canvas s)) = nat \<lfloor>rectWidth e * pixelRatio e\<rfloor>
       \<and> height (setupHighResCanvas e (canvas s)) = nat \<lfloor>rectHeight e * pixelRatio e\<rfloor>
       \<and> scaleBy (dstate (setupHighResCanvas e (canvas s))) = (pixelRatio e, pixelRatio e)
       \<and> actionEffect e (s\<lparr>actionMenuItem := None\<rparr>) =
           Done (s\<lparr>canvas := setupHighResCanvas e (canvas s), actionMenuItem := None\<rparr>)
       \<and> pixels (canvas (boardOf (actionEffect e (s\<lparr>actionMenuItem := None\<rparr>)))) = Blank
       \<and> downloads (boardOf (actionEffect e (s\<lparr>actionMenuItem := Some Download\<rparr>))) =
           downloads s @ [ImageData (nat \<lfloor>rectWidth e * pixelRatio e\<rfloor>)
                                    (nat \<lfloor>rectHeight e * pixelRatio e\<rfloor>) Blank]"
proof -
  have run: "actionEffect e s = actionBranch (s\<lparr>canvas := setupHighResCanvas e (canvas s)\<rparr>)"
    using assms by (simp add: actionEffect_def)
  have cv: "pixels (setupHighResCanvas e (canvas s)) = Blank"
    "width (setupHighResCanvas e (canvas s)) = nat \<lfloor>rectWidth e * pixelRatio e\<rfloor>"
    "height (setupHighResCanvas e (canvas s)) = nat \<lfloor>rectHeight e * pixelRatio e\<rfloor>"
    "scaleBy (dstate (setupHighResCanvas e (canvas s))) = (pixelRatio e, pixelRatio e)"
    by (simp_all add: setup_canvas)
  have cleared: "pixels (canvas (boardOf (actionEffect e (s\<lparr>actionMenuItem := None\<rparr>)))) = Blank"
    by (simp add: null_step [OF assms] cv)
  have exported: "downloads (boardOf (actionEffect e (s\<lparr>actionMenuItem := Some Download\<rparr>))) =
           downloads s @ [ImageData (nat \<lfloor>rectWidth e * pixelRatio e\<rfloor>)
                                    (nat \<lfloor>rectHeight e * pixelRatio e\<rfloor>) Blank]"
    by (simp add: download_step [OF assms] toDataURL_def cv)
  from run cv null_step [OF assms, of e] cleared exported show ?thesis
    by blast
qed

theorem action_effect_resets_canvas_witness:
  "canvasMounted (sampleBoard\<lparr>canvas := (canvas sampleBoard)\<lparr>pixels := sampleStroke\<rparr>\<rparr>)
   \<and> pixels (canvas (boardOf (actionEffect sampleEnv
        (sampleBoard\<lparr>canvas := (canvas sampleBoard)\<lparr>pixels := sampleStroke\<rparr>,
                     actionMenuItem := None\<rparr>)))) = Blank
   \<and> downloads (boardOf (actionEffect sampleEnv
        (sampleBoard\<lparr>canvas := (canvas sampleBoard)\<lparr>pixels := sampleStroke\<rparr>,
                     actionMenuItem := Some Download\<rparr>))) = [ImageData 1600 1200 Blank]"
proof -
  have h: "canvasMounted (sampleBoard\<lparr>canvas := (canvas sampleBoard)\<lparr>pixels := sampleStroke\<rparr>\<rparr>)"
    by (simp add: sampleBoard_def freshBoard_def)
  from action_effect_resets_canvas [OF h, of sampleEnv]
  show ?thesis
    using h
    by (simp add: sampleBoard_def freshBoard_def sampleEnv_def pixelRatio_def
        actionBranch_def setup_canvas toDataURL_def)
qed


end
